theory Spec2Isabelle
  imports Main "HOL-Library.Char_ord" "HOL-Library.List_Lexorder" "HOL-Library.Multiset"
begin

section \<open>JSON values and raw payloads\<close>

text \<open>
  The package \<open>oneof\<close> (files \<open>marshal.go\<close>, \<open>custom_value_wrapper.go\<close>, \<open>error.go\<close>)
  is a plug-in for the JSON codec \<open>github.com/go-json-experiment/json\<close>.  Wire data is
  modelled by its JSON tree: an object keeps its members in document order, as the
  codec's encoder writes them.  Numbers are integers here; white space and number
  formatting are not modelled.
\<close>

datatype json =
    JNull
  | JBool bool
  | JNum int
  | JStr string
  | JArr "json list"
  | JObj "(string \<times> json) list"

text \<open>
  \<open>jsontext.Value\<close> is a byte slice holding one encoded JSON value.  The code only asks
  whether the slice is empty (\<open>len(v)\<close>) and which kind of value it holds
  (\<open>v.Kind()\<close>), so \<open>None\<close> stands for the nil or zero-length slice and \<open>Some j\<close> for
  the encoding of \<open>j\<close>.
\<close>

type_synonym jsontext_Value = "json option"

definition len_positive :: "jsontext_Value \<Rightarrow> bool" where
  "len_positive v = (v \<noteq> None)"

fun kind_of :: "json \<Rightarrow> char" where
  "kind_of JNull = CHR ''n''"
| "kind_of (JBool b) = (if b then CHR ''t'' else CHR ''f'')"
| "kind_of (JNum n) = CHR ''0''"
| "kind_of (JStr s) = CHR 0x22"
| "kind_of (JArr xs) = CHR ''[''"
| "kind_of (JObj ms) = CHR ''{''"

definition Kind :: "jsontext_Value \<Rightarrow> char" where
  "Kind v = (case v of None \<Rightarrow> CHR 0x00 | Some j \<Rightarrow> kind_of j)"

section \<open>Errors\<close>

text \<open>
  \<open>error.go\<close> declares two error types; every other failure of the package is a
  \<open>fmt.Errorf\<close> at one place of the code.  Each constructor below is one such place
  (named after its message), so that every early return of the source is a branch
  of the model.  \<open>codec_error\<close> are failures raised by the codec itself, and
  \<open>RuntimePanic\<close> is a Go runtime panic.
\<close>

datatype codec_error =
    DuplicateName string
  | CannotUnmarshal char string
  | CannotDeriveConcreteType
  | InvalidInlinedValue
  | EmptyValue
  | OtherCodecError string

datatype error =
    ErrUnknownGoType string
  | ErrUnknownDiscriminatorValue string
  | FailedToMarshalT error
  | FailedToDecodeToTypeWrapper error
  | FailedToMarshalValueToOptionType string error
  | CustomDiscriminatorKeyIsEmpty
  | FoundBothInlineAndNestedValues
  | FailedToUnmarshalInlineValue error
  | FailedToWriteInlineKeyToken string error
  | FailedToWriteInlineValue error
  | FailedToWriteNestedValueKeyToken string error
  | FailedToWriteNestedValue error
  | ExpectedObjectStart char
  | FailedToMarshalToMap error
  | MissingDiscriminator string
  | ValueForDiscriminatorKeyMustBeString string char
  | FailedToReMarshalValue error
  | FailedToUnmarshalToValue error
  | CodecError codec_error
  | RuntimePanic string

section \<open>Go values of the interface type T\<close>

text \<open>
  A value of the interface type \<open>T\<close> is nil, or carries a concrete type and a value.
  \<open>Val n v\<close> is a non-pointer value \<open>v\<close> of the named type \<open>n\<close>; \<open>Ref n a\<close> is a
  non-nil pointer of type \<open>*n\<close> to the heap cell \<open>a\<close>; \<open>RawRef r\<close> is a
  \<open>*jsontext.Value\<close>.  The payload type \<open>'v\<close> is left open: how a variant is encoded
  is the codec's business.
\<close>

datatype gotype = TNamed string | TPtr gotype

datatype 'v goval =
    GoNil
  | Val string 'v
  | Ref string nat
  | RawRef jsontext_Value

type_synonym 'v heap = "nat \<Rightarrow> 'v option"

fun reflect_TypeOf :: "'v goval \<Rightarrow> gotype option" where
  "reflect_TypeOf GoNil = None"
| "reflect_TypeOf (Val n v) = Some (TNamed n)"
| "reflect_TypeOf (Ref n a) = Some (TPtr (TNamed n))"
| "reflect_TypeOf (RawRef r) = Some (TPtr (TNamed ''jsontext.Value''))"

text \<open>\<open>if typ.Kind() == reflect.Ptr { typ = typ.Elem() }\<close>\<close>

fun elem_if_ptr :: "gotype \<Rightarrow> gotype" where
  "elem_if_ptr (TPtr t) = t"
| "elem_if_ptr t = t"

text \<open>\<open>fmt.Sprintf("%T", t)\<close>\<close>

fun type_string :: "gotype \<Rightarrow> string" where
  "type_string (TNamed n) = n"
| "type_string (TPtr t) = CHR ''*'' # type_string t"

definition sprintf_T :: "'v goval \<Rightarrow> string" where
  "sprintf_T t = (case reflect_TypeOf t of None \<Rightarrow> ''<nil>'' | Some ty \<Rightarrow> type_string ty)"

text \<open>\<open>_, ok := any(t).(*jsontext.Value)\<close>\<close>

fun is_jsontext_Value_ptr :: "'v goval \<Rightarrow> bool" where
  "is_jsontext_Value_ptr (RawRef r) = True"
| "is_jsontext_Value_ptr t = False"

text \<open>The value a \<open>T\<close> holds, one level of indirection stripped.\<close>

fun contents :: "'v heap \<Rightarrow> 'v goval \<Rightarrow> 'v option" where
  "contents h (Val n v) = Some v"
| "contents h (Ref n a) = h a"
| "contents h t = None"

section \<open>The option map and \<open>discriminatorValueFor\<close>\<close>

text \<open>
  \<open>opts map[string]T\<close> is an association list: the order of the list is the order in
  which one \<open>range\<close> over the map visits its entries (Go leaves it unspecified, so
  statements quantify over every order); a lookup \<open>opts[k]\<close> is \<open>map_of\<close>.  A Go map
  has no repeated key: \<open>distinct (map fst opts)\<close>.

  The loop of \<open>discriminatorValueFor\<close> stops at the first entry whose type matches and
  leaves \<open>key\<close> at \<open>""\<close> otherwise.  Calling \<open>Kind\<close> on the nil \<open>reflect.Type\<close> of a
  nil interface panics.
\<close>

type_synonym 'v options = "(string \<times> 'v goval) list"

fun find_key :: "gotype \<Rightarrow> 'v options \<Rightarrow> error + string" where
  "find_key typeT [] = Inr ''''"
| "find_key typeT ((k, ot) # rest) =
     (case reflect_TypeOf ot of
        None \<Rightarrow> Inl (RuntimePanic ''nil pointer dereference'')
      | Some typeOT \<Rightarrow>
          if elem_if_ptr typeOT = typeT then Inr k else find_key typeT rest)"

definition discriminatorValueFor :: "'v goval \<Rightarrow> 'v options \<Rightarrow> error + (string \<times> bool)" where
  "discriminatorValueFor t opts =
     (case reflect_TypeOf t of
        None \<Rightarrow> Inl (RuntimePanic ''nil pointer dereference'')
      | Some ty \<Rightarrow>
          (case find_key (elem_if_ptr ty) opts of
             Inl e \<Rightarrow> Inl e
           | Inr key \<Rightarrow> if key = '''' then Inr ('''', False) else Inr (key, True)))"

text \<open>
  The test \<open>typeOT == typeT\<close> of the loop, for a value \<open>t\<close> and a registered option
  \<open>ot\<close>: their types are equal once a pointer is replaced by what it points to.
\<close>

definition same_type :: "'v goval \<Rightarrow> 'v goval \<Rightarrow> bool" where
  "same_type t ot =
     (case (reflect_TypeOf t, reflect_TypeOf ot) of
        (Some typeT, Some typeOT) \<Rightarrow> elem_if_ptr typeOT = elem_if_ptr typeT
      | _ \<Rightarrow> False)"

section \<open>Wire wrappers (\<open>WrappedValue\<close>)\<close>

text \<open>
  The three implementations of the interface \<open>WrappedValue\<close>: two structs of
  \<open>marshal.go\<close> whose JSON form is given by their field tags, and
  \<open>customKeyWrappedType\<close> of \<open>custom_value_wrapper.go\<close>, which has its own
  \<open>MarshalJSONV2\<close> and \<open>UnmarshalJSONV2\<close>.
\<close>

definition defaultTypeDiscriminatorKey :: string where
  "defaultTypeDiscriminatorKey = ''_type''"

definition defaultNestedValueKey :: string where
  "defaultNestedValueKey = ''_value''"

record alwaysNestWrappedValue =
  an_Typ :: string
  an_NestedValue :: jsontext_Value

record inlineObjectsWrappedValue =
  io_Typ :: string
  io_NestedValue :: jsontext_Value
  io_InlineValue :: jsontext_Value

record customKeyWrappedType =
  discriminatorKey :: string
  discriminatorValue :: string
  nestedValueKey :: string
  nestedValue :: jsontext_Value
  inlineValue :: jsontext_Value

datatype WrappedValue =
    W_alwaysNest alwaysNestWrappedValue
  | W_inlineObjects inlineObjectsWrappedValue
  | W_customKey customKeyWrappedType

text \<open>The methods \<open>Type()\<close> and \<open>Value()\<close> of the three implementations.\<close>

fun Type :: "WrappedValue \<Rightarrow> string" where
  "Type (W_alwaysNest w) = an_Typ w"
| "Type (W_inlineObjects w) = io_Typ w"
| "Type (W_customKey w) = discriminatorValue w"

fun Value :: "WrappedValue \<Rightarrow> jsontext_Value" where
  "Value (W_alwaysNest w) = an_NestedValue w"
| "Value (W_inlineObjects w) =
     (if len_positive (io_NestedValue w) then io_NestedValue w else io_InlineValue w)"
| "Value (W_customKey w) =
     (if len_positive (inlineValue w) then inlineValue w else nestedValue w)"

definition WrapNested :: "string \<Rightarrow> jsontext_Value \<Rightarrow> WrappedValue" where
  "WrapNested typ v = W_alwaysNest \<lparr>an_Typ = typ, an_NestedValue = v\<rparr>"

definition WrapInline :: "string \<Rightarrow> jsontext_Value \<Rightarrow> WrappedValue" where
  "WrapInline typ v =
     (if Kind v = CHR ''{''
      then W_inlineObjects \<lparr>io_Typ = typ, io_NestedValue = None, io_InlineValue = v\<rparr>
      else W_inlineObjects \<lparr>io_Typ = typ, io_NestedValue = v, io_InlineValue = None\<rparr>)"

record CustomValueWrapper =
  DiscriminatorKey :: string
  NestedValueKey :: string
  InlineObjects :: bool


definition Wrap :: "CustomValueWrapper \<Rightarrow> string \<Rightarrow> jsontext_Value \<Rightarrow> WrappedValue" where
  "Wrap b typ v =
     (let discriminatorKey' =
            (if DiscriminatorKey b \<noteq> '''' then DiscriminatorKey b
             else defaultTypeDiscriminatorKey);
          nestedValueKey' =
            (if NestedValueKey b \<noteq> '''' then NestedValueKey b else defaultNestedValueKey);
          t = \<lparr>discriminatorKey = discriminatorKey', discriminatorValue = typ,
               nestedValueKey = nestedValueKey', nestedValue = None, inlineValue = None\<rparr>
      in W_customKey
           (if Kind v = CHR ''{'' \<and> InlineObjects b
            then t\<lparr>inlineValue := v\<rparr> else t\<lparr>nestedValue := v\<rparr>))"

section \<open>The codec at its boundary\<close>

text \<open>
  The codec is not part of the package.  What the package needs of it is taken as
  parameters: the codec's own encoding of a variant (\<open>default_marshal\<close>) and its
  decoding of a payload into an existing variant value (\<open>default_unmarshal\<close>), the
  order in which one \<open>range\<close> visits a Go map (\<open>range_order\<close>, unspecified in Go), and
  the encoding of an \<open>any\<close> tree that was decoded from JSON (\<open>marshal_any\<close>).
  \<open>json.Options\<close> is reduced to the one option the package reads.

  \<open>default_marshal\<close> and \<open>default_unmarshal\<close> stand for the whole encoding and decoding
  of a variant, fields of the interface type included: the hook invocations for such
  fields begin and end with the toggle clear, so they leave no trace in it.  An
  error of a hook is handed on by the codec as it is, without the codec's own
  wrapping.
\<close>

record 'v codec =
  default_marshal :: "'v \<Rightarrow> error + json"
  default_unmarshal :: "json \<Rightarrow> 'v \<Rightarrow> error + 'v"
  range_order :: "(string \<times> json) list \<Rightarrow> (string \<times> json) list"
  marshal_any :: "json \<Rightarrow> error + json"

record json_Options =
  Deterministic :: "bool option"

text \<open>
  The encoder refuses an object name that the object already has
  (\<open>jsontext.AllowDuplicateNames\<close> is off by default).
\<close>

definition has_name :: "(string \<times> json) list \<Rightarrow> string \<Rightarrow> bool" where
  "has_name obj k = (k \<in> fst ` set obj)"

fun write_members :: "(string \<times> json) list \<Rightarrow> (string \<times> json) list \<Rightarrow>
    codec_error + (string \<times> json) list" where
  "write_members obj [] = Inr obj"
| "write_members obj ((k, v) # rest) =
     (if has_name obj k then Inl (DuplicateName k) else write_members (obj @ [(k, v)]) rest)"

text \<open>
  The tag \<open>omitempty\<close> of the codec: the field is left out when it would be written
  as \<open>null\<close>, \<open>""\<close>, \<open>{}\<close> or \<open>[]\<close>; a nil \<open>jsontext.Value\<close> is written as \<open>null\<close>.
\<close>

definition is_empty_json :: "json \<Rightarrow> bool" where
  "is_empty_json j = (j = JNull \<or> j = JStr [] \<or> j = JArr [] \<or> j = JObj [])"

definition omitempty_field :: "string \<Rightarrow> jsontext_Value \<Rightarrow> (string \<times> json) list" where
  "omitempty_field k v =
     (case v of
        None \<Rightarrow> []
      | Some j \<Rightarrow> if is_empty_json j then [] else [(k, j)])"

text \<open>
  \<open>alwaysNestWrappedValue\<close>: \<open>Typ `json:"_type"`\<close>, \<open>NestedValue `json:"_value,omitempty"`\<close>.
\<close>

definition marshal_alwaysNest :: "alwaysNestWrappedValue \<Rightarrow> json" where
  "marshal_alwaysNest w =
     JObj ((''_type'', JStr (an_Typ w)) # omitempty_field ''_value'' (an_NestedValue w))"

text \<open>
  \<open>inlineObjectsWrappedValue\<close> has the same two fields and
  \<open>InlineValue `json:",inline"`\<close>: the members of the inlined object are written
  after the declared fields, into the same object.
\<close>

definition marshal_inlineObjects :: "inlineObjectsWrappedValue \<Rightarrow> codec_error + json" where
  "marshal_inlineObjects w =
     (let declared = (''_type'', JStr (io_Typ w)) #
            omitempty_field ''_value'' (io_NestedValue w)
      in case io_InlineValue w of
           None \<Rightarrow> Inr (JObj declared)
         | Some (JObj ms) \<Rightarrow>
             (case write_members declared ms of Inl e \<Rightarrow> Inl e | Inr obj \<Rightarrow> Inr (JObj obj))
         | Some j \<Rightarrow> Inl InvalidInlinedValue)"

text \<open>
  Decoding into one of the two structs.  The decoder reads the members in document
  order and refuses a repeated name.  A member named \<open>_type\<close> must be a JSON string
  (\<open>null\<close> leaves the zero value), a member named \<open>_value\<close> is kept as it is, a member
  the struct does not declare is an unknown member.  A member that is absent leaves
  its field as it was.
\<close>

fun decode_fields :: "string list \<Rightarrow> (string \<times> json) list \<Rightarrow>
    string \<times> jsontext_Value \<times> (string \<times> json) list \<Rightarrow>
    codec_error + (string \<times> jsontext_Value \<times> (string \<times> json) list)" where
  "decode_fields seen [] acc = Inr acc"
| "decode_fields seen ((k, v) # rest) (typ, nested, unknown) =
     (if k \<in> set seen then Inl (DuplicateName k)
      else if k = ''_type'' then
        (case v of
           JStr s \<Rightarrow> decode_fields (k # seen) rest (s, nested, unknown)
         | JNull \<Rightarrow> decode_fields (k # seen) rest ('''', nested, unknown)
         | _ \<Rightarrow> Inl (CannotUnmarshal (kind_of v) ''string''))
      else if k = ''_value'' then decode_fields (k # seen) rest (typ, Some v, unknown)
      else decode_fields (k # seen) rest (typ, nested, unknown @ [(k, v)]))"

text \<open>\<open>alwaysNestWrappedValue\<close> has no inlined field: unknown members are skipped.\<close>

definition unmarshal_alwaysNest ::
    "json \<Rightarrow> alwaysNestWrappedValue \<Rightarrow> codec_error + alwaysNestWrappedValue" where
  "unmarshal_alwaysNest input w =
     (case input of
        JObj ms \<Rightarrow>
          (case decode_fields [] ms (an_Typ w, an_NestedValue w, []) of
             Inl e \<Rightarrow> Inl e
           | Inr (typ, nested, unknown) \<Rightarrow> Inr \<lparr>an_Typ = typ, an_NestedValue = nested\<rparr>)
      | JNull \<Rightarrow> Inr \<lparr>an_Typ = '''', an_NestedValue = None\<rparr>
      | _ \<Rightarrow> Inl (CannotUnmarshal (kind_of input) ''oneof.alwaysNestWrappedValue''))"

text \<open>
  \<open>inlineObjectsWrappedValue\<close>: the unknown members are gathered, in document order,
  into the object held by the inlined field \<open>InlineValue\<close>.
\<close>

definition inline_unknown :: "jsontext_Value \<Rightarrow> (string \<times> json) list \<Rightarrow> jsontext_Value" where
  "inline_unknown old unknown =
     (if unknown = [] then old
      else case old of Some (JObj ms) \<Rightarrow> Some (JObj (ms @ unknown)) | _ \<Rightarrow> Some (JObj unknown))"

definition unmarshal_inlineObjects ::
    "json \<Rightarrow> inlineObjectsWrappedValue \<Rightarrow> codec_error + inlineObjectsWrappedValue" where
  "unmarshal_inlineObjects input w =
     (case input of
        JObj ms \<Rightarrow>
          (case decode_fields [] ms (io_Typ w, io_NestedValue w, []) of
             Inl e \<Rightarrow> Inl e
           | Inr (typ, nested, unknown) \<Rightarrow>
               Inr \<lparr>io_Typ = typ, io_NestedValue = nested,
                    io_InlineValue = inline_unknown (io_InlineValue w) unknown\<rparr>)
      | JNull \<Rightarrow> Inr \<lparr>io_Typ = '''', io_NestedValue = None, io_InlineValue = None\<rparr>
      | _ \<Rightarrow> Inl (CannotUnmarshal (kind_of input) ''oneof.inlineObjectsWrappedValue''))"

section \<open>\<open>customKeyWrappedType\<close>: \<open>MarshalJSONV2\<close> and \<open>UnmarshalJSONV2\<close>\<close>

text \<open>
  \<open>json.Unmarshal\<close> of an object into a Go map (\<open>map[string]jsontext.Value\<close> in
  \<open>MarshalJSONV2\<close>, \<open>map[string]any\<close> in \<open>UnmarshalJSONV2\<close>).  The map is a list of its
  entries with distinct keys; the order of that list means nothing, a \<open>range\<close> over
  the map visits \<open>range_order\<close> of it.
\<close>

fun first_duplicate :: "string list \<Rightarrow> string list \<Rightarrow> string option" where
  "first_duplicate seen [] = None"
| "first_duplicate seen (k # ks) =
     (if k \<in> set seen then Some k else first_duplicate (k # seen) ks)"

definition unmarshal_to_map :: "string \<Rightarrow> json \<Rightarrow> codec_error + (string \<times> json) list" where
  "unmarshal_to_map gotyp input =
     (case input of
        JObj ms \<Rightarrow>
          (case first_duplicate [] (map fst ms) of
             Some k \<Rightarrow> Inl (DuplicateName k)
           | None \<Rightarrow> Inr ms)
      | JNull \<Rightarrow> Inr []
      | _ \<Rightarrow> Inl (CannotUnmarshal (kind_of input) gotyp))"

text \<open>\<open>m[k]\<close> and \<open>delete(m, k)\<close> on such a map.\<close>

definition map_index :: "(string \<times> json) list \<Rightarrow> string \<Rightarrow> json option" where
  "map_index m k = map_of m k"

definition map_delete :: "(string \<times> json) list \<Rightarrow> string \<Rightarrow> (string \<times> json) list" where
  "map_delete m k = filter (\<lambda>kv. fst kv \<noteq> k) m"

text \<open>
  The two loops of \<open>MarshalJSONV2\<close> write a name token and a value for every entry
  they visit.  \<open>enc.WriteToken\<close> fails on a name the object already has;
  \<open>enc.WriteValue\<close> fails on an empty value.
\<close>

fun write_inline :: "(string \<times> json) list \<Rightarrow> (string \<times> jsontext_Value) list \<Rightarrow>
    error + (string \<times> json) list" where
  "write_inline obj [] = Inr obj"
| "write_inline obj ((k, v) # rest) =
     (if has_name obj k then Inl (FailedToWriteInlineKeyToken k (CodecError (DuplicateName k)))
      else case v of
             None \<Rightarrow> Inl (FailedToWriteInlineValue (CodecError EmptyValue))
           | Some j \<Rightarrow> write_inline (obj @ [(k, j)]) rest)"

text \<open>
  \<open>sort.Strings(keys)\<close> followed by \<open>v := m[k]\<close> for every key, against
  \<open>for k, v := range m\<close>.
\<close>

definition sorted_entries :: "(string \<times> json) list \<Rightarrow> (string \<times> jsontext_Value) list" where
  "sorted_entries m = map (\<lambda>k. (k, map_index m k)) (sort (map fst m))"

definition ranged_entries :: "'v codec \<Rightarrow> (string \<times> json) list \<Rightarrow>
    (string \<times> jsontext_Value) list" where
  "ranged_entries C m = map (\<lambda>kv. (fst kv, Some (snd kv))) (range_order C m)"

definition MarshalJSONV2 :: "'v codec \<Rightarrow> json_Options \<Rightarrow> customKeyWrappedType \<Rightarrow> error + json" where
  "MarshalJSONV2 C jsonopts w =
     (if discriminatorKey w = '''' then Inl CustomDiscriminatorKeyIsEmpty
      else
        let obj = [(discriminatorKey w, JStr (discriminatorValue w))] in
        if len_positive (inlineValue w) \<and> len_positive (nestedValue w)
        then Inl FoundBothInlineAndNestedValues
        else if len_positive (inlineValue w) then
          (case inlineValue w of
             None \<Rightarrow> Inr (JObj obj)
           | Some iv \<Rightarrow>
              (case unmarshal_to_map ''map[string]jsontext.Value'' iv of
                 Inl e \<Rightarrow> Inl (FailedToUnmarshalInlineValue (CodecError e))
               | Inr m \<Rightarrow>
                  (case write_inline obj
                          (if Deterministic jsonopts = Some True then sorted_entries m
                           else ranged_entries C m) of
                     Inl e \<Rightarrow> Inl e
                   | Inr obj' \<Rightarrow> Inr (JObj obj'))))
        else if len_positive (nestedValue w) then
          (if has_name obj (nestedValueKey w)
           then Inl (FailedToWriteNestedValueKeyToken (nestedValueKey w)
                      (CodecError (DuplicateName (nestedValueKey w))))
           else case nestedValue w of
                  None \<Rightarrow> Inl (FailedToWriteNestedValue (CodecError EmptyValue))
                | Some nv \<Rightarrow> Inr (JObj (obj @ [(nestedValueKey w, nv)])))
        else Inr (JObj obj))"

text \<open>
  \<open>UnmarshalJSONV2\<close>.  The value is taken through \<open>json.Marshal\<close> of the \<open>any\<close> tree
  (\<open>marshal_any\<close>) and back into a \<open>jsontext.Value\<close>; the second step copies valid
  JSON and does not fail on the output of the first.  When the object holds nothing
  but the discriminator the function returns before it stores the discriminator.
\<close>

definition UnmarshalJSONV2 :: "'v codec \<Rightarrow> json_Options \<Rightarrow> json \<Rightarrow> customKeyWrappedType \<Rightarrow>
    error + customKeyWrappedType" where
  "UnmarshalJSONV2 C jsonopts input w =
     (if kind_of input \<noteq> CHR ''{'' then Inl (ExpectedObjectStart (kind_of input))
      else case unmarshal_to_map ''map[string]any'' input of
        Inl e \<Rightarrow> Inl (FailedToMarshalToMap (CodecError e))
      | Inr m \<Rightarrow>
         (case map_index m (discriminatorKey w) of
            None \<Rightarrow> Inl (MissingDiscriminator (discriminatorKey w))
          | Some dv \<Rightarrow>
             (case dv of
                JStr dvs \<Rightarrow>
                  (let m1 = map_delete m (discriminatorKey w) in
                   if length m1 = 0 then Inr w
                   else case map_index m1 (nestedValueKey w) of
                     Some nv \<Rightarrow>
                       (let m2 = map_delete m1 (nestedValueKey w) in
                        if length m2 > 0 then Inl FoundBothInlineAndNestedValues
                        else case marshal_any C nv of
                               Inl e \<Rightarrow> Inl (FailedToReMarshalValue e)
                             | Inr v \<Rightarrow>
                                 Inr (w\<lparr>nestedValue := Some v, discriminatorValue := dvs\<rparr>))
                   | None \<Rightarrow>
                       (case marshal_any C (JObj m1) of
                          Inl e \<Rightarrow> Inl (FailedToReMarshalValue e)
                        | Inr v \<Rightarrow>
                            Inr (w\<lparr>inlineValue := Some v, discriminatorValue := dvs\<rparr>)))
              | _ \<Rightarrow> Inl (ValueForDiscriminatorKeyMustBeString (discriminatorKey w)
                          (kind_of dv)))))"

section \<open>Encoding and decoding a wrapper through the codec\<close>

text \<open>
  \<open>json.MarshalEncode(enc, w, jsonopts)\<close>: the structs are written after their tags,
  \<open>customKeyWrappedType\<close> by its \<open>MarshalJSONV2\<close>.
\<close>

definition json_MarshalEncode :: "'v codec \<Rightarrow> json_Options \<Rightarrow> WrappedValue \<Rightarrow> error + json" where
  "json_MarshalEncode C jsonopts w =
     (case w of
        W_alwaysNest s \<Rightarrow> Inr (marshal_alwaysNest s)
      | W_inlineObjects s \<Rightarrow>
          (case marshal_inlineObjects s of Inl e \<Rightarrow> Inl (CodecError e) | Inr j \<Rightarrow> Inr j)
      | W_customKey c \<Rightarrow> MarshalJSONV2 C jsonopts c)"

text \<open>
  \<open>json.UnmarshalDecode(dec, &w, jsonopts)\<close>, where \<open>w\<close> is a variable of the interface
  type \<open>WrappedValue\<close> that holds the empty wrapper.  The codec stores nil in an
  interface on the input \<open>null\<close> (the result \<open>None\<close>); on any other input it decodes
  into a copy of the value the interface holds and stores the copy back.
\<close>

definition json_UnmarshalDecode :: "'v codec \<Rightarrow> json_Options \<Rightarrow> json \<Rightarrow> WrappedValue \<Rightarrow>
    error + WrappedValue option" where
  "json_UnmarshalDecode C jsonopts input w =
     (if input = JNull then Inr None
      else case w of
        W_alwaysNest s \<Rightarrow>
          (case unmarshal_alwaysNest input s of
             Inl e \<Rightarrow> Inl (CodecError e)
           | Inr s' \<Rightarrow> Inr (Some (W_alwaysNest s')))
      | W_inlineObjects s \<Rightarrow>
          (case unmarshal_inlineObjects input s of
             Inl e \<Rightarrow> Inl (CodecError e)
           | Inr s' \<Rightarrow> Inr (Some (W_inlineObjects s')))
      | W_customKey c \<Rightarrow>
          (case UnmarshalJSONV2 C jsonopts input c of
             Inl e \<Rightarrow> Inl e
           | Inr c' \<Rightarrow> Inr (Some (W_customKey c'))))"

section \<open>\<open>Config\<close>, \<open>MarshalFunc\<close> and \<open>UnmarshalFunc\<close>\<close>

record 'v Config =
  ReplaceMissingTypeFunc :: "('v goval \<Rightarrow> string) option"
  WrapFunc :: "(string \<Rightarrow> jsontext_Value \<Rightarrow> WrappedValue) option"

text \<open>\<open>if cfg == nil { cfg = &Config{} }\<close> and the default of \<open>WrapFunc\<close>.\<close>

definition cfg_or_empty :: "'v Config option \<Rightarrow> 'v Config" where
  "cfg_or_empty cfg =
     (case cfg of None \<Rightarrow> \<lparr>ReplaceMissingTypeFunc = None, WrapFunc = None\<rparr> | Some c \<Rightarrow> c)"

definition wrapFunc :: "'v Config option \<Rightarrow> string \<Rightarrow> jsontext_Value \<Rightarrow> WrappedValue" where
  "wrapFunc cfg = (case WrapFunc (cfg_or_empty cfg) of None \<Rightarrow> WrapNested | Some f \<Rightarrow> f)"

definition replaceMissingTypeFunc :: "'v Config option \<Rightarrow> ('v goval \<Rightarrow> string) option" where
  "replaceMissingTypeFunc cfg = ReplaceMissingTypeFunc (cfg_or_empty cfg)"

text \<open>
  What a hook hands back to the codec: \<open>json.SkipFunc\<close>, a nil error together with
  what the hook produced, or an error.
\<close>

datatype 'a hook_result = SkipFunc | Returned 'a | Failed error

text \<open>
  The codec's own encoding of a \<open>T\<close> once the hook has passed: a pointer is followed,
  a \<open>*jsontext.Value\<close> is written as it is (\<open>null\<close> when nil).
\<close>

definition intrinsic_marshal :: "'v codec \<Rightarrow> 'v heap \<Rightarrow> 'v goval \<Rightarrow> error + json" where
  "intrinsic_marshal C h t =
     (case t of
        GoNil \<Rightarrow> Inr JNull
      | Val n v \<Rightarrow> default_marshal C v
      | Ref n a \<Rightarrow>
          (case h a of
             None \<Rightarrow> Inl (RuntimePanic ''invalid memory address'')
           | Some v \<Rightarrow> default_marshal C v)
      | RawRef r \<Rightarrow> Inr (case r of None \<Rightarrow> JNull | Some j \<Rightarrow> j))"

text \<open>
  \<open>marshalFunc\<close> is the closure that \<open>MarshalFunc(opts, cfg)\<close> returns; its captured
  variable \<open>skipNext\<close> is passed in and returned.  \<open>json_Marshal\<close> is the codec's
  \<open>json.Marshal(t, jsonopts)\<close> with that closure registered in \<open>jsonopts\<close>: the codec
  writes \<open>null\<close> for a nil interface without calling any hook, calls the hook for
  every other value of \<open>T\<close>, and encodes the value itself when the hook answers
  \<open>json.SkipFunc\<close>.  The hook calls \<open>json.Marshal\<close> and the codec calls the hook: the
  two are one recursive definition, and its termination proof is the argument that
  the toggle stops the recursion.

  The codec also meets the \<open>jsontext.Value\<close> fields of a wrapper while it writes the
  wrapper; \<open>marshalFunc\<close> answers \<open>json.SkipFunc\<close> for them and leaves a clear toggle
  clear, so \<open>json_MarshalEncode\<close> writes these fields directly.
\<close>

function marshalFunc :: "'v codec \<Rightarrow> 'v options \<Rightarrow> 'v Config option \<Rightarrow> 'v heap \<Rightarrow>
      json_Options \<Rightarrow> 'v goval \<Rightarrow> bool \<Rightarrow> json hook_result \<times> bool"
  and json_Marshal :: "'v codec \<Rightarrow> 'v options \<Rightarrow> 'v Config option \<Rightarrow> 'v heap \<Rightarrow>
      json_Options \<Rightarrow> 'v goval \<Rightarrow> bool \<Rightarrow> (error + json) \<times> bool" where
  "marshalFunc C opts cfg h jsonopts t skipNext =
     (if skipNext then (SkipFunc, False)
      else if is_jsontext_Value_ptr t then (SkipFunc, skipNext)
      else case discriminatorValueFor t opts of
        Inl panic \<Rightarrow> (Failed panic, skipNext)
      | Inr (key, ok) \<Rightarrow>
         (case (if ok then Inr key
                else case replaceMissingTypeFunc cfg of
                       None \<Rightarrow> Inl (ErrUnknownGoType (sprintf_T t))
                     | Some f \<Rightarrow> Inr (f t)) of
            Inl err \<Rightarrow> (Failed err, skipNext)
          | Inr discriminatorValue' \<Rightarrow>
             (case json_Marshal C opts cfg h jsonopts t True of
                (Inl err, skipNext') \<Rightarrow> (Failed (FailedToMarshalT err), skipNext')
              | (Inr b, skipNext') \<Rightarrow>
                 (case json_MarshalEncode C jsonopts (wrapFunc cfg discriminatorValue' (Some b)) of
                    Inl err \<Rightarrow> (Failed err, skipNext')
                  | Inr out \<Rightarrow> (Returned out, skipNext')))))"
| "json_Marshal C opts cfg h jsonopts t skipNext =
     (if t = GoNil then (Inr JNull, skipNext)
      else case marshalFunc C opts cfg h jsonopts t skipNext of
        (SkipFunc, skipNext') \<Rightarrow> (intrinsic_marshal C h t, skipNext')
      | (Returned out, skipNext') \<Rightarrow> (Inr out, skipNext')
      | (Failed err, skipNext') \<Rightarrow> (Inl err, skipNext'))"
  by pat_completeness auto
termination
  by (relation "measure (\<lambda>x. case x of
        Inl (C, opts, cfg, h, jsonopts, t, skipNext) \<Rightarrow> if skipNext then 0 else 2
      | Inr (C, opts, cfg, h, jsonopts, t, skipNext) \<Rightarrow> if skipNext then 1 else 3)") auto

text \<open>
  The codec's own decoding into a variable of the interface type \<open>T\<close> once the hook
  has passed: \<open>null\<close> stores nil; a nil interface has no concrete type to decode into;
  a value is decoded into a copy that is stored back; a pointer is decoded through,
  into the cell it points to.
\<close>

definition intrinsic_unmarshal :: "'v codec \<Rightarrow> json \<Rightarrow> 'v goval \<Rightarrow> 'v heap \<Rightarrow>
    error + ('v goval \<times> 'v heap)" where
  "intrinsic_unmarshal C input dest h =
     (if input = JNull then Inr (GoNil, h)
      else case dest of
        GoNil \<Rightarrow> Inl (CodecError CannotDeriveConcreteType)
      | Val n p \<Rightarrow>
          (case default_unmarshal C input p of
             Inl e \<Rightarrow> Inl e
           | Inr p' \<Rightarrow> Inr (Val n p', h))
      | Ref n a \<Rightarrow>
          (case h a of
             None \<Rightarrow> Inl (RuntimePanic ''invalid memory address'')
           | Some p \<Rightarrow>
              (case default_unmarshal C input p of
                 Inl e \<Rightarrow> Inl e
               | Inr p' \<Rightarrow> Inr (Ref n a, h(a \<mapsto> p'))))
      | RawRef r \<Rightarrow> Inr (RawRef (Some input), h))"

text \<open>
  \<open>unmarshalFunc\<close> is the closure that \<open>UnmarshalFunc(opts, cfg)\<close> returns, with its
  own \<open>skipNext\<close>.  \<open>input\<close> is the JSON value the decoder stands at, \<open>ptr\<close> is the
  value of \<open>*ptr\<close> on entry; on success the hook returns the new value of \<open>*ptr\<close> and
  the heap.  \<open>json_Unmarshal\<close> is \<open>json.Unmarshal(v, optPtr, jsonopts)\<close>: the codec calls
  the hook for the destination of type \<open>T\<close> and decodes by itself on
  \<open>json.SkipFunc\<close>.  Calling \<open>w.Type()\<close> on a nil \<open>WrappedValue\<close> panics.
\<close>

function unmarshalFunc :: "'v codec \<Rightarrow> 'v options \<Rightarrow> 'v Config option \<Rightarrow> json_Options \<Rightarrow>
      json \<Rightarrow> 'v goval \<Rightarrow> 'v heap \<Rightarrow> bool \<Rightarrow> ('v goval \<times> 'v heap) hook_result \<times> bool"
  and json_Unmarshal :: "'v codec \<Rightarrow> 'v options \<Rightarrow> 'v Config option \<Rightarrow> json_Options \<Rightarrow>
      json \<Rightarrow> 'v goval \<Rightarrow> 'v heap \<Rightarrow> bool \<Rightarrow> (error + ('v goval \<times> 'v heap)) \<times> bool" where
  "unmarshalFunc C opts cfg jsonopts input ptr h skipNext =
     (if skipNext then (SkipFunc, False)
      else case json_UnmarshalDecode C jsonopts input (wrapFunc cfg '''' None) of
        Inl err \<Rightarrow> (Failed (FailedToDecodeToTypeWrapper err), skipNext)
      | Inr None \<Rightarrow> (Failed (RuntimePanic ''nil pointer dereference''), skipNext)
      | Inr (Some w) \<Rightarrow>
         (case map_of opts (Type w) of
            None \<Rightarrow> (Failed (ErrUnknownDiscriminatorValue (Type w)), skipNext)
          | Some opt \<Rightarrow>
             (case Value w of
                None \<Rightarrow> (Returned (opt, h), skipNext)
              | Some v \<Rightarrow>
                 (case json_Unmarshal C opts cfg jsonopts v opt h True of
                    (Inl err, skipNext') \<Rightarrow>
                      (Failed (FailedToMarshalValueToOptionType (sprintf_T opt) err), skipNext')
                  | (Inr (opt', h'), skipNext') \<Rightarrow> (Returned (opt', h'), skipNext')))))"
| "json_Unmarshal C opts cfg jsonopts input dest h skipNext =
     (case unmarshalFunc C opts cfg jsonopts input dest h skipNext of
        (SkipFunc, skipNext') \<Rightarrow> (intrinsic_unmarshal C input dest h, skipNext')
      | (Returned r, skipNext') \<Rightarrow> (Inr r, skipNext')
      | (Failed err, skipNext') \<Rightarrow> (Inl err, skipNext'))"
  by pat_completeness auto
termination
  by (relation "measure (\<lambda>x. case x of
        Inl (C, opts, cfg, jsonopts, input, ptr, h, skipNext) \<Rightarrow> if skipNext then 0 else 2
      | Inr (C, opts, cfg, jsonopts, input, dest, h, skipNext) \<Rightarrow> if skipNext then 1 else 3)") auto

declare marshalFunc.simps [simp del]
declare json_Marshal.simps [simp del]
declare unmarshalFunc.simps [simp del]
declare json_Unmarshal.simps [simp del]

section \<open>An instance of the codec for examples\<close>

text \<open>
  The variants of the examples in \<open>README.md\<close> and the tests, with the encodings
  the README shows: \<open>crypto.Hash\<close> is a number, \<open>LiteralStringer\<close> a string,
  \<open>url.URL\<close> an object (reduced to the fields \<open>Scheme\<close> and \<open>Host\<close>), \<open>TeapotError\<close>
  an object with the field \<open>show_code\<close> (a bool; \<open>omitempty\<close> leaves out only \<open>null\<close>,
  \<open>""\<close>, \<open>[]\<close> and \<open>{}\<close>, so \<open>false\<close> is written).  \<open>JoinStringer\<close> is reduced to its
  field \<open>Separator\<close>, tagged \<open>separator,omitempty\<close>: with the empty separator it is
  written as the empty object.  \<open>ErrorString\<close> is \<open>errors.errorString\<close>, the type of
  \<open>io.ErrNoProgress\<close>: it has no exported field, so it is written as the empty object
  and decoding leaves it as it is.  \<open>Reading\<close> stands for a struct with one field,
  tagged \<open>json:"_value"\<close>.  Decoding an object into a struct sets the fields the
  object names and leaves the others.
\<close>

datatype example =
    Hash int
  | LiteralStringer string
  | URL string string
  | TeapotError bool
  | JoinStringer string
  | ErrorString string
  | Reading int

fun ex_marshal :: "example \<Rightarrow> error + json" where
  "ex_marshal (Hash n) = Inr (JNum n)"
| "ex_marshal (LiteralStringer s) = Inr (JStr s)"
| "ex_marshal (URL scheme host) = Inr (JObj [(''Scheme'', JStr scheme), (''Host'', JStr host)])"
| "ex_marshal (TeapotError b) = Inr (JObj [(''show_code'', JBool b)])"
| "ex_marshal (JoinStringer sep) =
     Inr (JObj (if sep = [] then [] else [(''separator'', JStr sep)]))"
| "ex_marshal (ErrorString s) = Inr (JObj [])"
| "ex_marshal (Reading n) = Inr (JObj [(''_value'', JNum n)])"

definition str_field :: "(string \<times> json) list \<Rightarrow> string \<Rightarrow> string \<Rightarrow> string" where
  "str_field ms k old = (case map_of ms k of Some (JStr s) \<Rightarrow> s | _ \<Rightarrow> old)"

fun ex_unmarshal :: "json \<Rightarrow> example \<Rightarrow> error + example" where
  "ex_unmarshal (JNum n) (Hash old) = Inr (Hash n)"
| "ex_unmarshal (JStr s) (LiteralStringer old) = Inr (LiteralStringer s)"
| "ex_unmarshal (JObj ms) (URL scheme host) =
     Inr (URL (str_field ms ''Scheme'' scheme) (str_field ms ''Host'' host))"
| "ex_unmarshal (JObj ms) (TeapotError b) =
     Inr (TeapotError (case map_of ms ''show_code'' of Some (JBool b') \<Rightarrow> b' | _ \<Rightarrow> b))"
| "ex_unmarshal (JObj ms) (JoinStringer sep) =
     Inr (JoinStringer (str_field ms ''separator'' sep))"
| "ex_unmarshal (JObj ms) (ErrorString s) = Inr (ErrorString s)"
| "ex_unmarshal (JObj ms) (Reading n) =
     Inr (Reading (case map_of ms ''_value'' of Some (JNum n') \<Rightarrow> n' | _ \<Rightarrow> n))"
| "ex_unmarshal j old = Inl (CodecError (CannotUnmarshal (kind_of j) ''Go value''))"


definition example_codec :: "example codec" where
  "example_codec =
     \<lparr>default_marshal = ex_marshal, default_unmarshal = ex_unmarshal,
      range_order = rev, marshal_any = Inr\<rparr>"

text \<open>
  \<open>map[string]fmt.Stringer{"crypto.Hash": crypto.Hash(0), "url.URL": &url.URL{}}\<close>,
  with the \<open>url.URL\<close> it points to in heap cell 0.
\<close>

definition stringerOptions :: "example options" where
  "stringerOptions = [(''crypto.Hash'', Val ''crypto.Hash'' (Hash 0)), (''url.URL'', Ref ''url.URL'' 0)]"

definition stringerHeap :: "example heap" where
  "stringerHeap = [0 \<mapsto> URL '''' '''']"

definition no_options :: json_Options where
  "no_options = \<lparr>Deterministic = None\<rparr>"

text \<open>
  The \<open>ReplaceMissingTypeFunc\<close> of \<open>ExampleConfig_replaceMissingTypeFunc\<close>:
  \<open>fmt.Sprintf("MISSING_%T", v)\<close>.
\<close>

definition missingTypeFunc :: "example goval \<Rightarrow> string" where
  "missingTypeFunc v = ''MISSING_'' @ sprintf_T v"




text \<open>
  The wrapper of \<open>ExampleCustomValueWrapper\<close> and an object payload with three
  members.
\<close>

definition exampleWrapper :: CustomValueWrapper where
  "exampleWrapper = \<lparr>DiscriminatorKey = ''$type'', NestedValueKey = ''$value'', InlineObjects = True\<rparr>"

definition joinPayload :: "(string \<times> json) list" where
  "joinPayload = [(''b'', JNum 2), (''separator'', JStr '' ''), (''a'', JNum 1)]"

text \<open>
  A payload can be merged into the wrapper object by \<open>WrapInline\<close> and read back
  when, being an object, its member names are distinct and none of them is one of
  the two names the wrapper declares.
\<close>

definition inline_safe :: "json \<Rightarrow> bool" where
  "inline_safe j =
     (case j of
        JObj ms \<Rightarrow> distinct (map fst ms) \<and> \<not> has_name ms ''_type'' \<and> \<not> has_name ms ''_value''
      | _ \<Rightarrow> True)"

text \<open>A registry with the variant \<open>Reading\<close>, and a configuration with \<open>WrapInline\<close>.\<close>

definition readingOptions :: "example options" where
  "readingOptions = [(''reading'', Val ''Reading'' (Reading 0))]"

definition inlineConfig :: "example Config" where
  "inlineConfig = \<lparr>ReplaceMissingTypeFunc = None, WrapFunc = Some WrapInline\<rparr>"

text \<open>
  What the two built-in wrappers write for a tag \<open>d\<close> and a payload \<open>j\<close>: \<open>WrapInline\<close>
  merges the members of an object payload, every other payload goes under \<open>_value\<close>
  and is left out when empty.
\<close>

definition wire_form :: "bool \<Rightarrow> string \<Rightarrow> json \<Rightarrow> json" where
  "wire_form inline d j =
     JObj ((''_type'', JStr d) #
           (case j of
              JObj ms \<Rightarrow> if inline then ms else omitempty_field ''_value'' (Some j)
            | _ \<Rightarrow> omitempty_field ''_value'' (Some j)))"

text \<open>
  A heap with the registered \<open>&url.URL{}\<close> in cell 0 and a second \<open>url.URL\<close> in cell 1;
  a configuration whose \<open>WrapFunc\<close> is the \<open>Wrap\<close> of a \<open>CustomValueWrapper\<close> with
  \<open>InlineObjects\<close> set and the default keys; a registry for the tag \<open>x\<close>.
\<close>

definition urlHeap :: "example heap" where
  "urlHeap = [0 \<mapsto> URL '''' '''', 1 \<mapsto> URL ''https'' ''example.com'']"

definition customInlineConfig :: "example Config" where
  "customInlineConfig =
     \<lparr>ReplaceMissingTypeFunc = None,
      WrapFunc = Some (Wrap \<lparr>DiscriminatorKey = '''', NestedValueKey = '''', InlineObjects = True\<rparr>)\<rparr>"

definition xOptions :: "example options" where
  "xOptions = [(''x'', Val ''crypto.Hash'' (Hash 0))]"

section \<open>The recursion guard\<close>

lemma marshalFunc_skip: "marshalFunc C opts cfg h jo t True = (SkipFunc, False)"
  by (simp add: marshalFunc.simps)

lemma unmarshalFunc_skip: "unmarshalFunc C opts cfg jo input ptr h True = (SkipFunc, False)"
  by (simp add: unmarshalFunc.simps)

lemma json_Marshal_nested:
  "json_Marshal C opts cfg h jo t True =
     (if t = GoNil then (Inr JNull, True) else (intrinsic_marshal C h t, False))"
  by (simp add: json_Marshal.simps marshalFunc_skip)

lemma json_Unmarshal_nested:
  "json_Unmarshal C opts cfg jo input dest h True = (intrinsic_unmarshal C input dest h, False)"
  by (simp add: json_Unmarshal.simps unmarshalFunc_skip)

lemma discriminatorValueFor_not_nil:
  "discriminatorValueFor t opts = Inr r \<Longrightarrow> t \<noteq> GoNil"
  by (auto simp: discriminatorValueFor_def)

text \<open>
  With the toggle clear, the nested \<open>json.Marshal(t, jsonopts)\<close> of \<open>marshalFunc\<close> is
  answered by the codec's own encoding of \<open>t\<close>, and the toggle is clear again when
  the hook returns; likewise for \<open>unmarshalFunc\<close>.
\<close>

lemma marshalFunc_clear:
  "marshalFunc C opts cfg h jo t False =
     (if is_jsontext_Value_ptr t then (SkipFunc, False)
      else case discriminatorValueFor t opts of
        Inl panic \<Rightarrow> (Failed panic, False)
      | Inr (key, ok) \<Rightarrow>
         (case (if ok then Inr key
                else case replaceMissingTypeFunc cfg of
                       None \<Rightarrow> Inl (ErrUnknownGoType (sprintf_T t))
                     | Some f \<Rightarrow> Inr (f t)) of
            Inl err \<Rightarrow> (Failed err, False)
          | Inr dv \<Rightarrow>
             (case intrinsic_marshal C h t of
                Inl err \<Rightarrow> (Failed (FailedToMarshalT err), False)
              | Inr b \<Rightarrow>
                 (case json_MarshalEncode C jo (wrapFunc cfg dv (Some b)) of
                    Inl err \<Rightarrow> (Failed err, False)
                  | Inr out \<Rightarrow> (Returned out, False)))))"
  apply (subst marshalFunc.simps)
  apply (auto simp: json_Marshal_nested split: sum.splits prod.splits option.splits
              dest: discriminatorValueFor_not_nil)
  done

lemma unmarshalFunc_clear:
  "unmarshalFunc C opts cfg jo input ptr h False =
     (case json_UnmarshalDecode C jo input (wrapFunc cfg '''' None) of
        Inl err \<Rightarrow> (Failed (FailedToDecodeToTypeWrapper err), False)
      | Inr None \<Rightarrow> (Failed (RuntimePanic ''nil pointer dereference''), False)
      | Inr (Some w) \<Rightarrow>
         (case map_of opts (Type w) of
            None \<Rightarrow> (Failed (ErrUnknownDiscriminatorValue (Type w)), False)
          | Some opt \<Rightarrow>
             (case Value w of
                None \<Rightarrow> (Returned (opt, h), False)
              | Some v \<Rightarrow>
                 (case intrinsic_unmarshal C v opt h of
                    Inl err \<Rightarrow>
                      (Failed (FailedToMarshalValueToOptionType (sprintf_T opt) err), False)
                  | Inr r \<Rightarrow> (Returned r, False)))))"
  apply (subst unmarshalFunc.simps)
  apply (auto simp: json_Unmarshal_nested split: sum.splits prod.splits option.splits)
  done

lemma marshalFunc_clear_result:
  "snd (marshalFunc C opts cfg h jo t False) = False
   \<and> (fst (marshalFunc C opts cfg h jo t False) = SkipFunc) = is_jsontext_Value_ptr t"
  by (simp add: marshalFunc_clear split: sum.splits prod.splits option.splits)

lemma unmarshalFunc_clear_result:
  "snd (unmarshalFunc C opts cfg jo input ptr h False) = False
   \<and> fst (unmarshalFunc C opts cfg jo input ptr h False) \<noteq> SkipFunc"
  by (simp add: unmarshalFunc_clear split: sum.splits prod.splits option.splits)

text \<open>
  The nested request of each hook, as the code issues it: with \<open>skipNext\<close> set.
\<close>

lemma marshalFunc_nested_request:
  assumes "\<not> is_jsontext_Value_ptr t" and "discriminatorValueFor t opts = Inr (d, True)"
  shows "marshalFunc C opts cfg h jo t False =
     (case json_Marshal C opts cfg h jo t True of
        (Inl err, s) \<Rightarrow> (Failed (FailedToMarshalT err), s)
      | (Inr b, s) \<Rightarrow>
         (case json_MarshalEncode C jo (wrapFunc cfg d (Some b)) of
            Inl err \<Rightarrow> (Failed err, s)
          | Inr out \<Rightarrow> (Returned out, s)))"
  using assms by (subst marshalFunc.simps) simp

lemma unmarshalFunc_nested_request:
  assumes "json_UnmarshalDecode C jo input (wrapFunc cfg '''' None) = Inr (Some w)"
      and "map_of opts (Type w) = Some opt" and "Value w = Some v"
  shows "unmarshalFunc C opts cfg jo input ptr h False =
     (case json_Unmarshal C opts cfg jo v opt h True of
        (Inl err, s) \<Rightarrow> (Failed (FailedToMarshalValueToOptionType (sprintf_T opt) err), s)
      | (Inr r, s) \<Rightarrow> (Returned r, s))"
  using assms by (subst unmarshalFunc.simps) (simp split: prod.splits sum.splits)

text \<open>
  C2, as the claim states it, fails where it says that every hook invocation with a
  clear guard intercepts: \<open>marshalFunc\<close>, called with a clear \<open>skipNext\<close> on a
  \<open>*jsontext.Value\<close>, answers \<open>json.SkipFunc\<close>.
\<close>

theorem interception_with_clear_guard_counterexample:
  "fst (marshalFunc example_codec stringerOptions None stringerHeap no_options
          (RawRef (Some (JNum 5))) False) = SkipFunc"
  by (simp add: marshalFunc_clear)

text \<open>
  C2 (amended).  The guard suppresses exactly one nested interception.  A hook that
  is entered with \<open>skipNext\<close> set clears it and answers \<open>json.SkipFunc\<close>, for every
  value and input, in \<open>marshalFunc\<close> and in \<open>unmarshalFunc\<close>.  When \<open>marshalFunc\<close> has
  resolved the tag of a value, and when \<open>unmarshalFunc\<close> has decoded a wrapper with a
  registered tag and a payload, the hook issues its nested request with the guard
  set (\<open>json_Marshal \<dots> True\<close>, \<open>json_Unmarshal \<dots> True\<close>); the hook invocation that the
  request causes is the pass, so the request returns the codec's own encoding or
  decoding and leaves the guard clear.  A hook entered with the guard clear
  intercepts (does not answer \<open>json.SkipFunc\<close>), with the one exception that
  \<open>marshalFunc\<close> passes a \<open>*jsontext.Value\<close>; either way the guard is clear when the
  hook returns.
\<close>

theorem guard_suppresses_one_interception:
  "marshalFunc C opts cfg h jo t True = (SkipFunc, False)
   \<and> unmarshalFunc C opts cfg jo input ptr h True = (SkipFunc, False)
   \<and> (\<not> is_jsontext_Value_ptr t \<and> discriminatorValueFor t opts = Inr (d, True) \<longrightarrow>
        marshalFunc C opts cfg h jo t False =
          (case json_Marshal C opts cfg h jo t True of
             (Inl err, s) \<Rightarrow> (Failed (FailedToMarshalT err), s)
           | (Inr b, s) \<Rightarrow>
              (case json_MarshalEncode C jo (wrapFunc cfg d (Some b)) of
                 Inl err \<Rightarrow> (Failed err, s)
               | Inr out \<Rightarrow> (Returned out, s)))
        \<and> json_Marshal C opts cfg h jo t True = (intrinsic_marshal C h t, False))
   \<and> (json_UnmarshalDecode C jo input (wrapFunc cfg '''' None) = Inr (Some w)
        \<and> map_of opts (Type w) = Some opt \<and> Value w = Some v \<longrightarrow>
        unmarshalFunc C opts cfg jo input ptr h False =
          (case json_Unmarshal C opts cfg jo v opt h True of
             (Inl err, s) \<Rightarrow> (Failed (FailedToMarshalValueToOptionType (sprintf_T opt) err), s)
           | (Inr r, s) \<Rightarrow> (Returned r, s))
        \<and> json_Unmarshal C opts cfg jo v opt h True = (intrinsic_unmarshal C v opt h, False))
   \<and> (fst (marshalFunc C opts cfg h jo t False) = SkipFunc) = is_jsontext_Value_ptr t
   \<and> fst (unmarshalFunc C opts cfg jo input ptr h False) \<noteq> SkipFunc
   \<and> snd (marshalFunc C opts cfg h jo t False) = False
   \<and> snd (unmarshalFunc C opts cfg jo input ptr h False) = False"
  using marshalFunc_clear_result [of C opts cfg h jo t]
        unmarshalFunc_clear_result [of C opts cfg jo input ptr h]
        marshalFunc_nested_request [of t opts d C cfg h jo]
        unmarshalFunc_nested_request [of C jo input cfg w opts opt v ptr h]
        discriminatorValueFor_not_nil [of t opts "(d, True)"]
  by (simp add: marshalFunc_skip unmarshalFunc_skip json_Marshal_nested json_Unmarshal_nested)

theorem guard_suppresses_one_interception_witness:
  "json_Marshal example_codec stringerOptions None stringerHeap no_options
       (Val ''crypto.Hash'' (Hash 5)) True = (Inr (JNum 5), False)
   \<and> marshalFunc example_codec stringerOptions None stringerHeap no_options
       (Val ''crypto.Hash'' (Hash 5)) False
     = (Returned (JObj [(''_type'', JStr ''crypto.Hash''), (''_value'', JNum 5)]), False)
   \<and> json_Unmarshal example_codec stringerOptions None no_options (JNum 5)
       (Val ''crypto.Hash'' (Hash 0)) stringerHeap True
     = (Inr (Val ''crypto.Hash'' (Hash 5), stringerHeap), False)
   \<and> unmarshalFunc example_codec stringerOptions None no_options
       (JObj [(''_type'', JStr ''crypto.Hash''), (''_value'', JNum 5)]) GoNil stringerHeap False
     = (Returned (Val ''crypto.Hash'' (Hash 5), stringerHeap), False)"
proof -
  let ?t = "Val ''crypto.Hash'' (Hash 5) :: example goval"
  let ?input = "JObj [(''_type'', JStr ''crypto.Hash''), (''_value'', JNum 5)]"
  let ?w = "W_alwaysNest \<lparr>an_Typ = ''crypto.Hash'', an_NestedValue = Some (JNum 5)\<rparr>"
  have h1: "\<not> is_jsontext_Value_ptr ?t
            \<and> discriminatorValueFor ?t stringerOptions = Inr (''crypto.Hash'', True)"
    by (simp add: discriminatorValueFor_def stringerOptions_def)
  have h2: "json_UnmarshalDecode example_codec no_options ?input
              (wrapFunc (None :: example Config option) '''' None) = Inr (Some ?w)
            \<and> map_of stringerOptions (Type ?w) = Some (Val ''crypto.Hash'' (Hash 0))
            \<and> Value ?w = Some (JNum 5)"
    by (simp add: json_UnmarshalDecode_def wrapFunc_def cfg_or_empty_def WrapNested_def
          unmarshal_alwaysNest_def stringerOptions_def)
  show ?thesis
    using h1 h2
      guard_suppresses_one_interception [of example_codec stringerOptions None stringerHeap no_options ?t
                 ?input GoNil "''crypto.Hash''" ?w "Val ''crypto.Hash'' (Hash 0)" "JNum 5"]
    by (simp add: intrinsic_marshal_def intrinsic_unmarshal_def example_codec_def
          json_MarshalEncode_def wrapFunc_def cfg_or_empty_def WrapNested_def
          marshal_alwaysNest_def omitempty_field_def is_empty_json_def)
qed

section \<open>Raw payloads (\<open>*jsontext.Value\<close>)\<close>

text \<open>
  C8, as the claim states it, fails twice.  \<open>marshalFunc\<close> tests the guard before it
  tests for \<open>*jsontext.Value\<close>: entered with the guard set it passes the raw payload
  and clears the guard, which is then no longer there for a nested request.
  \<open>unmarshalFunc\<close> has no test for \<open>*jsontext.Value\<close>: entered with the guard clear
  for a destination that holds one, it decodes the wrapper and stores the variant.
\<close>

theorem guard_not_left_for_raw_payload_counterexample:
  "marshalFunc example_codec stringerOptions None stringerHeap no_options
       (RawRef (Some (JNum 5))) True = (SkipFunc, False)
   \<and> unmarshalFunc example_codec stringerOptions None no_options
       (JObj [(''_type'', JStr ''crypto.Hash''), (''_value'', JNum 5)]) (RawRef None)
       stringerHeap False
     = (Returned (Val ''crypto.Hash'' (Hash 5), stringerHeap), False)"
  by (simp add: marshalFunc_skip unmarshalFunc_clear json_UnmarshalDecode_def wrapFunc_def
        cfg_or_empty_def WrapNested_def unmarshal_alwaysNest_def stringerOptions_def
        intrinsic_unmarshal_def example_codec_def)

text \<open>
  C8 (amended).  \<open>marshalFunc\<close> answers \<open>json.SkipFunc\<close> for every \<open>*jsontext.Value\<close>,
  whatever the guard; the guard is clear afterwards (a clear guard stays clear, a
  set guard is cleared by the guard test, which comes first).  \<open>unmarshalFunc\<close> never
  looks at the destination: it answers \<open>json.SkipFunc\<close> exactly when the guard is
  set, and leaves the guard clear.
\<close>

theorem raw_payload_pass_through:
  "marshalFunc C opts cfg h jo (RawRef r) skipNext = (SkipFunc, False)
   \<and> (fst (unmarshalFunc C opts cfg jo input ptr h skipNext) = SkipFunc) = skipNext
   \<and> snd (unmarshalFunc C opts cfg jo input ptr h skipNext) = False"
  by (cases skipNext) (simp_all add: marshalFunc_skip marshalFunc_clear unmarshalFunc_skip
        unmarshalFunc_clear_result)

section \<open>The discriminator key of \<open>CustomValueWrapper\<close>\<close>





section \<open>A value whose type is not registered\<close>

lemma find_key_miss:
  "\<forall>(k, ot) \<in> set opts. \<exists>ty. reflect_TypeOf ot = Some ty \<and> elem_if_ptr ty \<noteq> typeT
   \<Longrightarrow> find_key typeT opts = Inr ''''"
  by (induction opts) auto

lemma discriminatorValueFor_miss:
  assumes "t \<noteq> GoNil" and "\<forall>(k, ot) \<in> set opts. ot \<noteq> GoNil \<and> \<not> same_type t ot"
  shows "discriminatorValueFor t opts = Inr ('''', False)"
proof -
  obtain ty where ty: "reflect_TypeOf t = Some ty"
    using assms(1) by (cases t) auto
  have "\<forall>(k, ot) \<in> set opts. \<exists>ty'. reflect_TypeOf ot = Some ty' \<and> elem_if_ptr ty' \<noteq> elem_if_ptr ty"
  proof (clarify)
    fix k ot assume "(k, ot) \<in> set opts"
    then have "ot \<noteq> GoNil" "\<not> same_type t ot" using assms(2) by auto
    then show "\<exists>ty'. reflect_TypeOf ot = Some ty' \<and> elem_if_ptr ty' \<noteq> elem_if_ptr ty"
      using ty by (cases ot) (auto simp: same_type_def)
  qed
  then show ?thesis
    by (simp add: discriminatorValueFor_def ty find_key_miss)
qed

lemma json_Marshal_clear:
  "t \<noteq> GoNil \<Longrightarrow> json_Marshal C opts cfg h jo t False =
     (case marshalFunc C opts cfg h jo t False of
        (SkipFunc, s) \<Rightarrow> (intrinsic_marshal C h t, s)
      | (Returned out, s) \<Rightarrow> (Inr out, s)
      | (Failed err, s) \<Rightarrow> (Inl err, s))"
  by (simp add: json_Marshal.simps)

text \<open>
  C7.  Let \<open>t\<close> be a value (not nil, not a \<open>*jsontext.Value\<close>) whose type matches none
  of the registered options, and let the hook be entered with its guard clear.
  Without a \<open>ReplaceMissingTypeFunc\<close>, marshaling fails with \<open>ErrUnknownGoType\<close> of the
  type of \<open>t\<close>.  With a \<open>ReplaceMissingTypeFunc\<close> \<open>f\<close>, and when the codec's own encoding
  of \<open>t\<close> is \<open>b\<close>, marshaling returns the encoding of the wrapper built from the tag
  \<open>f t\<close> and the payload \<open>b\<close>, whether or not \<open>f t\<close> is a key of the option map; with the
  default wrapper that is the object with \<open>_type\<close> set to \<open>f t\<close> and \<open>_value\<close> set to \<open>b\<close>
  (left out by \<open>omitempty\<close> when \<open>b\<close> is an empty JSON value).
\<close>

theorem unregistered_type_on_encode:
  assumes "t \<noteq> GoNil" and "\<not> is_jsontext_Value_ptr t"
      and "\<forall>(k, ot) \<in> set opts. ot \<noteq> GoNil \<and> \<not> same_type t ot"
  shows "(replaceMissingTypeFunc cfg = None \<longrightarrow>
            json_Marshal C opts cfg h jo t False = (Inl (ErrUnknownGoType (sprintf_T t)), False))
       \<and> (\<forall>f b. replaceMissingTypeFunc cfg = Some f \<and> intrinsic_marshal C h t = Inr b \<longrightarrow>
            json_Marshal C opts cfg h jo t False =
              (json_MarshalEncode C jo (wrapFunc cfg (f t) (Some b)), False)
            \<and> (wrapFunc cfg = WrapNested \<longrightarrow>
                 json_Marshal C opts cfg h jo t False =
                   (Inr (JObj ((''_type'', JStr (f t)) # omitempty_field ''_value'' (Some b))), False)))"
proof -
  have miss: "discriminatorValueFor t opts = Inr ('''', False)"
    using assms(1,3) by (rule discriminatorValueFor_miss)
  show ?thesis
    using assms(1,2)
    by (auto simp: json_Marshal_clear marshalFunc_clear miss json_MarshalEncode_def WrapNested_def
          marshal_alwaysNest_def split: sum.splits)
qed

theorem unregistered_type_on_encode_witness:
  "json_Marshal example_codec stringerOptions None [1 \<mapsto> LiteralStringer ''Hello''] no_options
      (Ref ''oneof_test.LiteralStringer'' 1) False
     = (Inl (ErrUnknownGoType ''*oneof_test.LiteralStringer''), False)
   \<and> json_Marshal example_codec stringerOptions
        (Some \<lparr>ReplaceMissingTypeFunc = Some missingTypeFunc, WrapFunc = None\<rparr>)
        [1 \<mapsto> LiteralStringer ''Hello''] no_options (Ref ''oneof_test.LiteralStringer'' 1) False
     = (Inr (JObj [(''_type'', JStr ''MISSING_*oneof_test.LiteralStringer''),
                   (''_value'', JStr ''Hello'')]), False)"
proof -
  let ?t = "Ref ''oneof_test.LiteralStringer'' 1 :: example goval"
  have h1: "?t \<noteq> GoNil" by simp
  have h2: "\<not> is_jsontext_Value_ptr ?t" by simp
  have h3: "\<forall>(k, ot) \<in> set stringerOptions. ot \<noteq> GoNil \<and> \<not> same_type ?t ot"
    by (simp add: stringerOptions_def same_type_def)
  show ?thesis
    using unregistered_type_on_encode [OF h1 h2 h3, of None example_codec
            "[1 \<mapsto> LiteralStringer ''Hello'']" no_options]
          unregistered_type_on_encode [OF h1 h2 h3,
            of "Some \<lparr>ReplaceMissingTypeFunc = Some missingTypeFunc, WrapFunc = None\<rparr>"
               example_codec "[1 \<mapsto> LiteralStringer ''Hello'']" no_options]
    by (simp add: replaceMissingTypeFunc_def cfg_or_empty_def wrapFunc_def intrinsic_marshal_def
          example_codec_def missingTypeFunc_def sprintf_T_def omitempty_field_def is_empty_json_def
          json_MarshalEncode_def WrapNested_def marshal_alwaysNest_def)
qed

section \<open>Empty payloads\<close>

lemma json_Unmarshal_clear:
  "json_Unmarshal C opts cfg jo input dest h False =
     (case unmarshalFunc C opts cfg jo input dest h False of
        (SkipFunc, s) \<Rightarrow> (intrinsic_unmarshal C input dest h, s)
      | (Returned r, s) \<Rightarrow> (Inr r, s)
      | (Failed err, s) \<Rightarrow> (Inl err, s))"
  by (simp add: json_Unmarshal.simps)

lemma contents_Some:
  assumes "contents h t = Some v"
  shows "intrinsic_marshal C h t = default_marshal C v" and "\<not> is_jsontext_Value_ptr t"
    and "t \<noteq> GoNil"
  using assms by (cases t; simp add: intrinsic_marshal_def)+




section \<open>Order of inlined members\<close>

lemma first_duplicate_distinct:
  "distinct ks \<Longrightarrow> set ks \<inter> set seen = {} \<Longrightarrow> first_duplicate seen ks = None"
  by (induction ks arbitrary: seen) auto

lemma write_inline_ok:
  "distinct (map fst es) \<Longrightarrow> \<forall>k \<in> fst ` set es. \<not> has_name obj k \<Longrightarrow>
   write_inline obj (map (\<lambda>kv. (fst kv, Some (snd kv))) es) = Inr (obj @ es)"
proof (induction es arbitrary: obj)
  case Nil
  then show ?case by simp
next
  case (Cons e es)
  obtain k v where e: "e = (k, v)" by (cases e)
  have "\<forall>k' \<in> fst ` set es. \<not> has_name (obj @ [(k, v)]) k'"
    using Cons.prems e by (auto simp: has_name_def)
  then have "write_inline (obj @ [(k, v)]) (map (\<lambda>kv. (fst kv, Some (snd kv))) es)
               = Inr ((obj @ [(k, v)]) @ es)"
    using Cons.IH Cons.prems(1) by simp
  then show ?case using Cons.prems e by simp
qed

lemma sorted_entries_eq:
  assumes "distinct (map fst m)"
  shows "sorted_entries m = map (\<lambda>kv. (fst kv, Some (snd kv))) (map (\<lambda>k. (k, the (map_of m k))) (sort (map fst m)))"
proof -
  have "\<And>k. k \<in> set (map fst m) \<Longrightarrow> map_of m k = Some (the (map_of m k))"
    by (metis domIff dom_map_of_conv_image_fst list.set_map option.collapse)
  then show ?thesis
    by (simp add: sorted_entries_def map_index_def comp_def)
qed

lemma entries_of_keys:
  "distinct (map fst m) \<Longrightarrow> map (\<lambda>k. (k, the (map_of m k))) (map fst m) = m"
proof -
  assume d: "distinct (map fst m)"
  have "\<forall>x \<in> set m. (fst x, the (map_of m (fst x))) = x"
    using d by (auto simp: map_of_eq_Some_iff [THEN iffD2])
  then have "map (\<lambda>x. (fst x, the (map_of m (fst x)))) m = m"
    by (simp add: map_idI)
  then show ?thesis by (simp add: comp_def)
qed

text \<open>
  C10.  Let \<open>b\<close> be a \<open>CustomValueWrapper\<close> with \<open>InlineObjects\<close> set and let the payload
  be an object with members \<open>ms\<close> whose names are distinct and differ from the
  discriminator key (the encoder refuses a repeated name).  Encoding the wrapper
  writes the discriminator member first and then every member of the payload
  exactly once (the written members are a permutation of \<open>ms\<close>).  When
  \<open>json.Deterministic\<close> is set they are written in sorted order of their names;
  otherwise in the order in which \<open>range\<close> visits the map, of which only the
  guarantee of Go is assumed: every entry is visited once.
\<close>

theorem inline_members_order:
  assumes "InlineObjects b"
      and "distinct (map fst ms)"
      and "\<not> has_name ms (if DiscriminatorKey b = '''' then ''_type'' else DiscriminatorKey b)"
      and "Deterministic jo \<noteq> Some True \<longrightarrow> mset (range_order C ms) = mset ms"
  shows "\<exists>out. json_MarshalEncode C jo (Wrap b typ (Some (JObj ms)))
                 = Inr (JObj ((if DiscriminatorKey b = '''' then ''_type'' else DiscriminatorKey b,
                              JStr typ) # out))
             \<and> mset out = mset ms
             \<and> (Deterministic jo = Some True \<longrightarrow> sorted (map fst out))"
proof -
  let ?key = "if DiscriminatorKey b = '''' then ''_type'' else DiscriminatorKey b"
  let ?obj = "[(?key, JStr typ)]"
  define es where "es = (if Deterministic jo = Some True
                         then map (\<lambda>k. (k, the (map_of ms k))) (sort (map fst ms))
                         else range_order C ms)"
  have m: "unmarshal_to_map ''map[string]jsontext.Value'' (JObj ms) = Inr ms"
    using assms(2) by (simp add: unmarshal_to_map_def first_duplicate_distinct)
  have mset_es: "mset es = mset ms"
  proof (cases "Deterministic jo = Some True")
    case True
    have "mset es = mset (map (\<lambda>k. (k, the (map_of ms k))) (sort (map fst ms)))"
      using True by (simp add: es_def)
    also have "\<dots> = mset (map (\<lambda>k. (k, the (map_of ms k))) (map fst ms))"
      by (simp only: mset_map mset_sort)
    also have "\<dots> = mset ms"
      by (simp only: entries_of_keys [OF assms(2)])
    finally show ?thesis .
  next
    case False
    then show ?thesis using assms(4) by (simp add: es_def)
  qed
  have keys: "mset (map fst es) = mset (map fst ms)"
    using mset_es by (metis mset_map)
  have dist: "distinct (map fst es)"
    using keys assms(2) by (metis mset_eq_imp_distinct_iff)
  have fresh: "\<forall>k \<in> fst ` set es. \<not> has_name ?obj k"
  proof
    fix k assume "k \<in> fst ` set es"
    then have "k \<in> fst ` set ms" using keys by (metis list.set_map mset_eq_setD)
    then show "\<not> has_name ?obj k" using assms(3) by (force simp: has_name_def split: if_splits)
  qed
  have entries: "(if Deterministic jo = Some True then sorted_entries ms else ranged_entries C ms)
                   = map (\<lambda>kv. (fst kv, Some (snd kv))) es"
    using sorted_entries_eq [OF assms(2)] by (simp add: es_def ranged_entries_def)
  have w: "write_inline ?obj (if Deterministic jo = Some True then sorted_entries ms
                              else ranged_entries C ms) = Inr (?obj @ es)"
    unfolding entries using dist fresh by (rule write_inline_ok)
  have enc: "json_MarshalEncode C jo (Wrap b typ (Some (JObj ms))) = Inr (JObj (?obj @ es))"
    using assms(1) m w
    by (auto simp: json_MarshalEncode_def Wrap_def Let_def Kind_def MarshalJSONV2_def
          len_positive_def defaultTypeDiscriminatorKey_def split: if_splits)
  have srt: "Deterministic jo = Some True \<longrightarrow> sorted (map fst es)"
    by (simp add: es_def comp_def)
  show ?thesis using enc mset_es srt by auto
qed

theorem inline_members_order_witness:
  "json_MarshalEncode example_codec \<lparr>Deterministic = Some True\<rparr>
       (Wrap exampleWrapper ''join'' (Some (JObj joinPayload)))
     = Inr (JObj [(''$type'', JStr ''join''), (''a'', JNum 1), (''b'', JNum 2),
                  (''separator'', JStr '' '')])
   \<and> json_MarshalEncode example_codec no_options
       (Wrap exampleWrapper ''join'' (Some (JObj joinPayload)))
     = Inr (JObj [(''$type'', JStr ''join''), (''a'', JNum 1), (''separator'', JStr '' ''),
                  (''b'', JNum 2)])"
proof -
  have h1: "InlineObjects exampleWrapper" by (simp add: exampleWrapper_def)
  have h2: "distinct (map fst joinPayload)" by (simp add: joinPayload_def)
  have h3: "\<not> has_name joinPayload
              (if DiscriminatorKey exampleWrapper = '''' then ''_type''
               else DiscriminatorKey exampleWrapper)"
    by (simp add: has_name_def joinPayload_def exampleWrapper_def)
  have h4: "Deterministic jo \<noteq> Some True \<longrightarrow>
              mset (range_order example_codec joinPayload) = mset joinPayload" for jo
    by (simp add: example_codec_def)
  have srt: "sort (map fst joinPayload) = [''a'', ''b'', ''separator'']"
    by (simp add: joinPayload_def)
  show ?thesis
    using inline_members_order [OF h1 h2 h3 h4, of "\<lparr>Deterministic = Some True\<rparr>" "''join''"]
          inline_members_order [OF h1 h2 h3 h4, of no_options "''join''"]
    by (simp add: json_MarshalEncode_def Wrap_def Let_def Kind_def MarshalJSONV2_def
          len_positive_def exampleWrapper_def unmarshal_to_map_def sorted_entries_def srt
          ranged_entries_def example_codec_def no_options_def has_name_def map_index_def
          joinPayload_def)
qed

section \<open>Tag resolution\<close>

text \<open>
  \<open>discriminatorValueFor\<close> resolves a value to the tag \<open>d\<close> when \<open>d\<close> is not empty, an
  option of the value's type is registered under \<open>d\<close> and under no other tag, and no
  registered option is nil.  It never resolves to the empty tag, which is its
  not-found value: a variant registered under \<open>""\<close> is reported as unknown.
\<close>

lemma discriminatorValueFor_never_empty_tag:
  "discriminatorValueFor t opts \<noteq> Inr ('''', True)"
  by (auto simp: discriminatorValueFor_def split: option.splits sum.splits)

lemma find_key_registered:
  assumes "(d, ot) \<in> set opts" and "reflect_TypeOf ot = Some tyO" and "elem_if_ptr tyO = typeT"
      and "\<forall>(k, o') \<in> set opts. \<exists>ty'. reflect_TypeOf o' = Some ty' \<and> (elem_if_ptr ty' = typeT \<longrightarrow> k = d)"
  shows "find_key typeT opts = Inr d"
  using assms by (induction opts) auto

lemma discriminatorValueFor_registered:
  assumes "(d, ot) \<in> set opts" and "d \<noteq> ''''" and "same_type t ot"
      and "\<forall>(k, o') \<in> set opts. o' \<noteq> GoNil \<and> (same_type t o' \<longrightarrow> k = d)"
  shows "discriminatorValueFor t opts = Inr (d, True)"
proof -
  obtain ty tyO where ty: "reflect_TypeOf t = Some ty" "reflect_TypeOf ot = Some tyO"
      "elem_if_ptr tyO = elem_if_ptr ty"
    using assms(3) by (auto simp: same_type_def split: option.splits)
  have "\<forall>(k, o') \<in> set opts. \<exists>ty'. reflect_TypeOf o' = Some ty'
          \<and> (elem_if_ptr ty' = elem_if_ptr ty \<longrightarrow> k = d)"
  proof (clarify)
    fix k o' assume "(k, o') \<in> set opts"
    then have "o' \<noteq> GoNil" "same_type t o' \<longrightarrow> k = d" using assms(4) by auto
    then show "\<exists>ty'. reflect_TypeOf o' = Some ty' \<and> (elem_if_ptr ty' = elem_if_ptr ty \<longrightarrow> k = d)"
      using ty(1) by (cases o') (auto simp: same_type_def)
  qed
  then have "find_key (elem_if_ptr ty) opts = Inr d"
    using find_key_registered [OF assms(1) ty(2,3)] by simp
  then show ?thesis using assms(2) by (simp add: discriminatorValueFor_def ty(1))
qed

lemma empty_tag_never_resolved:
  "json_Marshal example_codec [('''', Val ''TeapotError'' (TeapotError False))] None Map.empty
     no_options (Val ''TeapotError'' (TeapotError False)) False
   = (Inl (ErrUnknownGoType ''TeapotError''), False)"
  by (simp add: json_Marshal_clear marshalFunc_clear discriminatorValueFor_def
        replaceMissingTypeFunc_def cfg_or_empty_def sprintf_T_def)

section \<open>Round trip\<close>

text \<open>
  C1, as the claim states it, fails for \<open>WrapInline\<close> on a variant whose default
  encoding is an object with a member named \<open>_value\<close>: the merged object is read
  back as a nested payload, here the number 7, which does not decode into the
  variant.
\<close>

theorem inline_round_trip_counterexample:
  "json_Marshal example_codec readingOptions (Some inlineConfig) Map.empty no_options
       (Val ''Reading'' (Reading 7)) False
     = (Inr (JObj [(''_type'', JStr ''reading''), (''_value'', JNum 7)]), False)
   \<and> json_Unmarshal example_codec readingOptions (Some inlineConfig) no_options
       (JObj [(''_type'', JStr ''reading''), (''_value'', JNum 7)]) GoNil Map.empty False
     = (Inl (FailedToMarshalValueToOptionType ''Reading''
              (CodecError (CannotUnmarshal (CHR ''0'') ''Go value''))), False)"
  by (simp add: json_Marshal_clear marshalFunc_clear json_Unmarshal_clear unmarshalFunc_clear
        readingOptions_def inlineConfig_def discriminatorValueFor_def intrinsic_marshal_def
        example_codec_def wrapFunc_def cfg_or_empty_def WrapInline_def Kind_def
        json_MarshalEncode_def marshal_inlineObjects_def omitempty_field_def has_name_def
        json_UnmarshalDecode_def unmarshal_inlineObjects_def inline_unknown_def len_positive_def
        intrinsic_unmarshal_def sprintf_T_def)

lemma decode_fields_unknown:
  "distinct (map fst ms) \<Longrightarrow> set (map fst ms) \<inter> set seen = {} \<Longrightarrow>
   \<not> has_name ms ''_type'' \<Longrightarrow> \<not> has_name ms ''_value'' \<Longrightarrow>
   decode_fields seen ms (typ, nested, unknown) = Inr (typ, nested, unknown @ ms)"
proof (induction ms arbitrary: seen unknown)
  case Nil
  then show ?case by simp
next
  case (Cons m ms)
  obtain k v where m: "m = (k, v)" by (cases m)
  have k: "k \<notin> set seen" "k \<noteq> ''_type''" "k \<noteq> ''_value''"
    using Cons.prems m by (auto simp: has_name_def)
  have "decode_fields (k # seen) ms (typ, nested, unknown @ [(k, v)])
          = Inr (typ, nested, (unknown @ [(k, v)]) @ ms)"
    using Cons.prems m by (intro Cons.IH) (auto simp: has_name_def)
  then show ?case using k m by simp
qed

lemma write_members_ok:
  "distinct (map fst ms) \<Longrightarrow> \<forall>k \<in> fst ` set ms. \<not> has_name obj k \<Longrightarrow>
   write_members obj ms = Inr (obj @ ms)"
proof (induction ms arbitrary: obj)
  case Nil
  then show ?case by simp
next
  case (Cons m ms)
  obtain k v where m: "m = (k, v)" by (cases m)
  have "\<forall>k' \<in> fst ` set ms. \<not> has_name (obj @ [(k, v)]) k'"
    using Cons.prems m by (auto simp: has_name_def)
  then have "write_members (obj @ [(k, v)]) ms = Inr ((obj @ [(k, v)]) @ ms)"
    using Cons.IH Cons.prems(1) by simp
  then show ?case using Cons.prems m by simp
qed

lemma encode_nested:
  "json_MarshalEncode C jo (WrapNested d (Some j)) = Inr (wire_form False d j)"
  by (simp add: json_MarshalEncode_def WrapNested_def marshal_alwaysNest_def wire_form_def
        split: json.splits)

lemma encode_inline:
  assumes "inline_safe j"
  shows "json_MarshalEncode C jo (WrapInline d (Some j)) = Inr (wire_form True d j)"
proof (cases j)
  case (JObj ms)
  have "write_members [(''_type'', JStr d)] ms = Inr ([(''_type'', JStr d)] @ ms)"
    using assms JObj by (intro write_members_ok) (force simp: inline_safe_def has_name_def)+
  then show ?thesis
    using JObj
    by (simp add: json_MarshalEncode_def WrapInline_def Kind_def marshal_inlineObjects_def
          omitempty_field_def wire_form_def)
qed (simp_all add: json_MarshalEncode_def WrapInline_def Kind_def marshal_inlineObjects_def
        wire_form_def)

lemma decode_nested:
  "\<exists>w. json_UnmarshalDecode C jo (wire_form False d j) (WrapNested '''' None) = Inr (Some w)
       \<and> Type w = d \<and> Value w = (if is_empty_json j then None else Some j)"
  by (simp add: json_UnmarshalDecode_def wire_form_def WrapNested_def unmarshal_alwaysNest_def
        omitempty_field_def split: json.splits)

lemma decode_inline:
  assumes "inline_safe j"
  shows "\<exists>w. json_UnmarshalDecode C jo (wire_form True d j) (WrapInline '''' None) = Inr (Some w)
       \<and> Type w = d \<and> Value w = (if is_empty_json j then None else Some j)"
proof (cases j)
  case (JObj ms)
  have "decode_fields [''_type''] ms (d, None, []) = Inr (d, None, [] @ ms)"
    using assms JObj by (intro decode_fields_unknown) (auto simp: inline_safe_def has_name_def)
  then show ?thesis
    using JObj
    by (simp add: json_UnmarshalDecode_def wire_form_def WrapInline_def Kind_def
          unmarshal_inlineObjects_def inline_unknown_def is_empty_json_def len_positive_def)
qed (simp_all add: json_UnmarshalDecode_def wire_form_def WrapInline_def Kind_def
        unmarshal_inlineObjects_def omitempty_field_def inline_unknown_def len_positive_def)

lemma decode_into_option:
  assumes "contents h opt = Some p" and "default_unmarshal C j p = Inr v" and "j \<noteq> JNull"
  shows "\<exists>res h'. intrinsic_unmarshal C j opt h = Inr (res, h') \<and> contents h' res = Some v"
  using assms by (cases opt) (auto simp: intrinsic_unmarshal_def)

text \<open>
  C1 (amended).  Let \<open>x\<close> hold a variant value \<open>v\<close> that \<open>discriminatorValueFor\<close>
  resolves to a tag \<open>d\<close>, and let the option registered under \<open>d\<close> hold \<open>p\<close>.  Let the
  codec encode \<open>v\<close> as \<open>j\<close> and decode \<open>j\<close> into \<open>p\<close> as \<open>v\<close>; when \<open>j\<close> is an empty JSON
  value (\<open>null\<close>, \<open>""\<close>, \<open>[]\<close>, \<open>{}\<close>) the payload is left out and nothing is decoded, so
  then \<open>p\<close> itself is \<open>v\<close>.  With \<open>WrapNested\<close>, and with \<open>WrapInline\<close> when \<open>j\<close>, if it is
  an object, has distinct member names none of which is \<open>_type\<close> or \<open>_value\<close>:
  marshaling \<open>x\<close> succeeds, and unmarshaling its output succeeds with a value that
  holds \<open>v\<close> (one level of indirection stripped, in the heap after the decode).
\<close>

theorem round_trip:
  assumes "discriminatorValueFor x opts = Inr (d, True)"
      and "map_of opts d = Some opt"
      and "contents h x = Some v" and "contents h opt = Some p"
      and "default_marshal C v = Inr j"
      and "if is_empty_json j then p = v else default_unmarshal C j p = Inr v"
      and "wrapFunc cfg = WrapNested \<or> (wrapFunc cfg = WrapInline \<and> inline_safe j)"
  shows "\<exists>out res h'.
           json_Marshal C opts cfg h jo x False = (Inr out, False)
         \<and> json_Unmarshal C opts cfg jo out dest h False = (Inr (res, h'), False)
         \<and> contents h' res = Some v"
proof -
  define inline where "inline = (wrapFunc cfg \<noteq> WrapNested)"
  have wf: "wrapFunc cfg = (if inline then WrapInline else WrapNested)"
    using assms(7) by (auto simp: inline_def)
  have safe: "inline \<Longrightarrow> inline_safe j"
    using assms(7) by (auto simp: inline_def)
  have enc: "json_MarshalEncode C jo (wrapFunc cfg d (Some j)) = Inr (wire_form inline d j)"
    using safe by (simp add: wf encode_nested encode_inline)
  have m: "json_Marshal C opts cfg h jo x False = (Inr (wire_form inline d j), False)"
    using contents_Some(1) [OF assms(3), of C] contents_Some(2,3) [OF assms(3)] assms(1,5) enc
    by (simp add: json_Marshal_clear marshalFunc_clear)
  obtain w where w: "json_UnmarshalDecode C jo (wire_form inline d j) (wrapFunc cfg '''' None)
                       = Inr (Some w)"
      "Type w = d" "Value w = (if is_empty_json j then None else Some j)"
  proof (cases inline)
    case True
    then show ?thesis
      using decode_inline [OF safe, of C jo d] that by (auto simp: wf)
  next
    case False
    then show ?thesis
      using decode_nested [of C jo d j] that by (auto simp: wf)
  qed
  have "\<exists>res h'. json_Unmarshal C opts cfg jo (wire_form inline d j) dest h False
                   = (Inr (res, h'), False) \<and> contents h' res = Some v"
  proof (cases "is_empty_json j")
    case True
    then show ?thesis
      using w assms(2,4,6) by (simp add: json_Unmarshal_clear unmarshalFunc_clear)
  next
    case False
    then have "j \<noteq> JNull" by (auto simp: is_empty_json_def)
    then obtain res h' where "intrinsic_unmarshal C j opt h = Inr (res, h')"
        "contents h' res = Some v"
      using decode_into_option [OF assms(4), of C j v] assms(6) False by auto
    then show ?thesis
      using w assms(2) False by (simp add: json_Unmarshal_clear unmarshalFunc_clear)
  qed
  then show ?thesis using m by blast
qed

theorem round_trip_witness:
  "\<exists>out res h'.
     json_Marshal example_codec stringerOptions (Some inlineConfig) urlHeap no_options
         (Ref ''url.URL'' 1) False = (Inr out, False)
   \<and> json_Unmarshal example_codec stringerOptions (Some inlineConfig) no_options out GoNil
         urlHeap False = (Inr (res, h'), False)
   \<and> contents h' res = Some (URL ''https'' ''example.com'')"
proof -
  let ?x = "Ref ''url.URL'' 1 :: example goval"
  let ?j = "JObj [(''Scheme'', JStr ''https''), (''Host'', JStr ''example.com'')]"
  have h1: "discriminatorValueFor ?x stringerOptions = Inr (''url.URL'', True)"
    by (simp add: discriminatorValueFor_def stringerOptions_def)
  have h2: "map_of stringerOptions ''url.URL'' = Some (Ref ''url.URL'' 0)"
    by (simp add: stringerOptions_def)
  have h3: "contents urlHeap ?x = Some (URL ''https'' ''example.com'')"
    by (simp add: urlHeap_def)
  have h4: "contents urlHeap (Ref ''url.URL'' 0) = Some (URL '''' '''')"
    by (simp add: urlHeap_def)
  have h5: "default_marshal example_codec (URL ''https'' ''example.com'') = Inr ?j"
    by (simp add: example_codec_def)
  have h6: "if is_empty_json ?j then URL '''' '''' = URL ''https'' ''example.com''
            else default_unmarshal example_codec ?j (URL '''' '''')
                   = Inr (URL ''https'' ''example.com'')"
    by (simp add: is_empty_json_def example_codec_def str_field_def)
  have h7: "wrapFunc (Some inlineConfig) = WrapNested
            \<or> (wrapFunc (Some inlineConfig) = WrapInline \<and> inline_safe ?j)"
    by (simp add: wrapFunc_def cfg_or_empty_def inlineConfig_def inline_safe_def has_name_def)
  show ?thesis
    by (rule round_trip [OF h1 h2 h3 h4 h5 h6 h7])
qed

section \<open>Decoding: shared options, ambiguous and malformed wrappers\<close>

lemmas decode_eval =
  json_Unmarshal_clear unmarshalFunc_clear json_UnmarshalDecode_def wrapFunc_def
  cfg_or_empty_def WrapNested_def WrapInline_def Wrap_def Kind_def Let_def
  unmarshal_alwaysNest_def unmarshal_inlineObjects_def inline_unknown_def len_positive_def
  UnmarshalJSONV2_def unmarshal_to_map_def map_index_def map_delete_def
  defaultTypeDiscriminatorKey_def defaultNestedValueKey_def
  intrinsic_unmarshal_def example_codec_def str_field_def sprintf_T_def

text \<open>
  C3: what the code does for an option registered as a pointer, here
  \<open>"url.URL": &url.URL{}\<close> in heap cell 0.  \<open>opt, ok := opts[w.Type()]\<close> copies the
  interface value, that is the pointer.  A decode with an empty payload returns the
  registered pointer itself.  A decode with a payload is decoded through that
  pointer: the registered \<open>url.URL\<close> is changed, and a second decode returns the same
  pointer and overwrites what the first result points to.
\<close>

theorem pointer_option_shared_between_decodes:
  "json_Unmarshal example_codec stringerOptions None no_options
       (JObj [(''_type'', JStr ''url.URL'')]) GoNil stringerHeap False
     = (Inr (Ref ''url.URL'' 0, stringerHeap), False)
   \<and> json_Unmarshal example_codec stringerOptions None no_options
       (JObj [(''_type'', JStr ''url.URL''), (''_value'', JObj [(''Host'', JStr ''a.example'')])])
       GoNil stringerHeap False
     = (Inr (Ref ''url.URL'' 0, [0 \<mapsto> URL '''' ''a.example'']), False)
   \<and> json_Unmarshal example_codec stringerOptions None no_options
       (JObj [(''_type'', JStr ''url.URL''), (''_value'', JObj [(''Host'', JStr ''b.example'')])])
       GoNil [0 \<mapsto> URL '''' ''a.example''] False
     = (Inr (Ref ''url.URL'' 0, [0 \<mapsto> URL '''' ''b.example'']), False)"
  by (simp add: decode_eval stringerOptions_def stringerHeap_def)

text \<open>
  C4: what the code does with the object
  \<open>{"_type":"x","_value":1,"extra":2}\<close>.  Decoded into the struct of \<open>WrapInline\<close>
  it is no error: \<open>_value\<close> fills \<open>NestedValue\<close>, \<open>extra\<close> fills \<open>InlineValue\<close>, \<open>Value()\<close>
  returns the nested value, and the hook returns the variant decoded from \<open>1\<close>; the
  member \<open>extra\<close> is dropped.  The same object decoded through a
  \<open>CustomValueWrapper\<close> fails with \<open>found both inline and nested values\<close>.
\<close>

theorem inline_wrapper_accepts_ambiguous_object:
  "json_UnmarshalDecode example_codec no_options
       (JObj [(''_type'', JStr ''x''), (''_value'', JNum 1), (''extra'', JNum 2)])
       (WrapInline '''' None)
     = Inr (Some (W_inlineObjects \<lparr>io_Typ = ''x'', io_NestedValue = Some (JNum 1),
                    io_InlineValue = Some (JObj [(''extra'', JNum 2)])\<rparr>))
   \<and> json_Unmarshal example_codec xOptions (Some inlineConfig) no_options
       (JObj [(''_type'', JStr ''x''), (''_value'', JNum 1), (''extra'', JNum 2)])
       GoNil Map.empty False
     = (Inr (Val ''crypto.Hash'' (Hash 1), Map.empty), False)
   \<and> json_Unmarshal example_codec xOptions (Some customInlineConfig) no_options
       (JObj [(''_type'', JStr ''x''), (''_value'', JNum 1), (''extra'', JNum 2)])
       GoNil Map.empty False
     = (Inl (FailedToDecodeToTypeWrapper FoundBothInlineAndNestedValues), False)"
  by (simp add: decode_eval xOptions_def inlineConfig_def customInlineConfig_def)

text \<open>
  C5: what the code does with an object that has no member \<open>_type\<close>.  Decoded into
  the struct of the default \<open>WrapNested\<close> it leaves \<open>Typ\<close> at \<open>""\<close> without an error, so
  the hook looks up the tag \<open>""\<close>: it fails with \<open>ErrUnknownDiscriminatorValue\<close>, or
  succeeds when an option is registered under \<open>""\<close>.  Through a
  \<open>CustomValueWrapper\<close> the same input fails while the wrapper is decoded, with
  \<open>missing discriminator\<close>.
\<close>

theorem nested_wrapper_missing_tag:
  "json_Unmarshal example_codec stringerOptions None no_options
       (JObj []) GoNil stringerHeap False
     = (Inl (ErrUnknownDiscriminatorValue ''''), False)
   \<and> json_Unmarshal example_codec stringerOptions None no_options
       (JObj [(''_value'', JNum 5)]) GoNil stringerHeap False
     = (Inl (ErrUnknownDiscriminatorValue ''''), False)
   \<and> json_Unmarshal example_codec [('''', Val ''crypto.Hash'' (Hash 0))] None no_options
       (JObj [(''_value'', JNum 5)]) GoNil stringerHeap False
     = (Inr (Val ''crypto.Hash'' (Hash 5), stringerHeap), False)
   \<and> json_Unmarshal example_codec stringerOptions (Some customInlineConfig) no_options
       (JObj [(''_value'', JNum 5)]) GoNil stringerHeap False
     = (Inl (FailedToDecodeToTypeWrapper (MissingDiscriminator ''_type'')), False)"
  by (simp add: decode_eval stringerOptions_def customInlineConfig_def)

text \<open>
  \<open>UnmarshalJSONV2\<close> of \<open>customKeyWrappedType\<close> does make the two checks, for every
  object with distinct names.
\<close>

lemma custom_wrapper_rejects_ambiguous_object:
  assumes "distinct (map fst ms)"
      and "map_of ms (discriminatorKey w) = Some (JStr dvs)"
      and "map_of ms (nestedValueKey w) = Some nv"
      and "map_of ms other = Some ov"
      and "other \<noteq> discriminatorKey w" and "other \<noteq> nestedValueKey w"
      and "nestedValueKey w \<noteq> discriminatorKey w"
  shows "UnmarshalJSONV2 C jo (JObj ms) w = Inl FoundBothInlineAndNestedValues"
proof -
  let ?m1 = "map_delete ms (discriminatorKey w)"
  let ?m2 = "map_delete ?m1 (nestedValueKey w)"
  have del: "map_of (map_delete m k) k' = (if k' = k then None else map_of m k')" for m k k'
    by (induction m) (auto simp: map_delete_def)
  have m1: "map_index ?m1 (nestedValueKey w) = Some nv"
    using assms(3,7) by (simp add: map_index_def del)
  have "map_of ?m2 other = Some ov"
    using assms(4,5,6) by (simp add: del)
  then have ne2: "length ?m2 > 0" by (cases ?m2) auto
  have ne1: "length ?m1 \<noteq> 0" using m1 by (cases ?m1) (auto simp: map_index_def)
  have um: "unmarshal_to_map ''map[string]any'' (JObj ms) = Inr ms"
    using assms(1) by (simp add: unmarshal_to_map_def first_duplicate_distinct)
  show ?thesis
    using um assms(2) m1 ne1 ne2
    by (simp add: UnmarshalJSONV2_def Let_def map_index_def)
qed

lemma custom_wrapper_requires_tag:
  "kind_of input \<noteq> CHR ''{'' \<Longrightarrow>
     UnmarshalJSONV2 C jo input w = Inl (ExpectedObjectStart (kind_of input))"
  "distinct (map fst ms) \<Longrightarrow> map_of ms (discriminatorKey w) = None \<Longrightarrow>
     UnmarshalJSONV2 C jo (JObj ms) w = Inl (MissingDiscriminator (discriminatorKey w))"
  "distinct (map fst ms) \<Longrightarrow> map_of ms (discriminatorKey w) = Some dv \<Longrightarrow> kind_of dv \<noteq> CHR 0x22 \<Longrightarrow>
     UnmarshalJSONV2 C jo (JObj ms) w
       = Inl (ValueForDiscriminatorKeyMustBeString (discriminatorKey w) (kind_of dv))"
  by (auto simp: UnmarshalJSONV2_def unmarshal_to_map_def first_duplicate_distinct map_index_def
        split: json.splits)

text \<open>
  Decoding changes the heap only through an option that is registered as a
  pointer.  \<open>UnmarshalJSONV2\<close> returns early, before it stores the discriminator, on
  an object that holds the discriminator only.
\<close>

lemma decode_without_pointer_options_keeps_heap:
  assumes "json_Unmarshal C opts cfg jo input dest h False = (Inr (res, h'), s)"
      and "\<forall>d n a. map_of opts d \<noteq> Some (Ref n a)"
  shows "h' = h"
  using assms
  by (auto simp: json_Unmarshal_clear unmarshalFunc_clear intrinsic_unmarshal_def
        split: sum.splits option.splits if_splits goval.splits)

lemma custom_wrapper_empty_payload:
  "json_Unmarshal example_codec xOptions (Some customInlineConfig) no_options
     (JObj [(''_type'', JStr ''x'')]) GoNil Map.empty False
   = (Inl (ErrUnknownDiscriminatorValue ''''), False)"
  by (simp add: decode_eval xOptions_def customInlineConfig_def)

end
